theory Spec2Isabelle
  imports Main "HOL-Library.AList" "HOL-Library.Monad_Syntax"
begin

section \<open>JavaScript values\<close>

text \<open>
  The TypeScript sources erase to JavaScript, and both the renderer and the validator
  read their argument through unchecked casts (\<^verbatim>\<open>component.props as unknown as DataTableProps\<close>).
  Values are therefore modelled dynamically: one universe of JSON-like data, with the
  TypeScript interfaces appearing as well-formedness predicates further down.

  Scope of the universe.
  \<^item> A number is an integer \<open>i\<close> with \<open>\<bar>i\<bar> \<le> 2\<^sup>5\<^sup>3\<close>, the range in which every integer is
    a number of the language and prints in full; \<open>JNum\<close> of a larger integer stands for
    no value, and fractions, infinities and NaN have no counterpart.
  \<^item> A string is a well-formed text, held as its UTF-8 bytes. Its length and indices
    count UTF-16 code units and \<^verbatim>\<open>for..of\<close> yields code points, as in the language.
  \<^item> An object is a plain dictionary in insertion order (an association list, first
    entry wins on lookup) whose prototype is \<^verbatim>\<open>Object.prototype\<close>.
  \<^item> Functions are no values of the universe. The members that an object inherits
    from \<^verbatim>\<open>Object.prototype\<close> are described separately (\<open>inherited\<close> below) and enter
    where the sources read a member under a computed name.
\<close>

datatype jsval =
    JUndefined
  | JNull
  | JBool bool
  | JNum int
  | JStr string
  | JArr "jsval list"
  | JObj "(string \<times> jsval) list"

text \<open>
  The only exception these sources can raise is the TypeError of the engine (a member of
  undefined or null is read, a value that is no function is called, a value that is not
  iterable is iterated, an object has no usable conversion to a string). A computation
  that may throw returns an \<^typ>\<open>'a option\<close>, with \<^term>\<open>None\<close> for the TypeError.
\<close>

text \<open>Decimal rendering of array indices and of numbers.\<close>

fun show_nat :: "nat \<Rightarrow> string" where
  "show_nat n =
     (if n < 10 then [''0123456789'' ! n]
      else show_nat (n div 10) @ [''0123456789'' ! (n mod 10)])"

declare show_nat.simps [simp del]

definition show_int :: "int \<Rightarrow> string" where
  "show_int i = (if i < 0 then CHR ''-'' # show_nat (nat (- i)) else show_nat (nat i))"

text \<open>\<^verbatim>\<open>!!v\<close>: the falsy values are undefined, null, false, 0 and the empty string.\<close>

fun truthy :: "jsval \<Rightarrow> bool" where
  "truthy JUndefined = False"
| "truthy JNull = False"
| "truthy (JBool b) = b"
| "truthy (JNum i) = (i \<noteq> 0)"
| "truthy (JStr s) = (s \<noteq> [])"
| "truthy (JArr xs) = True"
| "truthy (JObj kvs) = True"

text \<open>\<^verbatim>\<open>a ?? b\<close>, \<^verbatim>\<open>a || b\<close> and \<^verbatim>\<open>a && b\<close>.\<close>

fun nullish :: "jsval \<Rightarrow> jsval \<Rightarrow> jsval" where
  "nullish JUndefined b = b"
| "nullish JNull b = b"
| "nullish a b = a"

definition js_or :: "jsval \<Rightarrow> jsval \<Rightarrow> jsval" where
  "js_or a b = (if truthy a then a else b)"

definition js_and :: "jsval \<Rightarrow> jsval \<Rightarrow> jsval" where
  "js_and a b = (if truthy a then b else a)"

subsection \<open>Strings as sequences of code points and of code units\<close>

text \<open>
  In UTF-8 a code point is a lead byte followed by its continuation bytes, the bytes
  from 128 to 191.
\<close>

definition continuation :: "char \<Rightarrow> bool" where
  "continuation c = (128 \<le> (of_char c :: nat) \<and> (of_char c :: nat) < 192)"

function code_points :: "string \<Rightarrow> string list" where
  "code_points [] = []"
| "code_points (c # cs) =
     (c # takeWhile continuation cs) # code_points (dropWhile continuation cs)"
  by pat_completeness auto
termination
  by (relation "measure length") (simp_all add: length_dropWhile_le less_Suc_eq_le)

text \<open>
  A code point of four bytes lies beyond the sixteen bits of a code unit and is two
  units, its surrogates; a surrogate is held like a code point of three bytes.
\<close>

definition three_bytes :: "nat \<Rightarrow> string" where
  "three_bytes u =
     [char_of (224 + u div 4096), char_of (128 + (u div 64) mod 64), char_of (128 + u mod 64)]"

definition scalar_of :: "string \<Rightarrow> nat" where
  "scalar_of p =
     (of_char (p ! 0) mod 8) * 262144 + (of_char (p ! 1) mod 64) * 4096 +
     (of_char (p ! 2) mod 64) * 64 + of_char (p ! 3) mod 64"

definition units_of :: "string \<Rightarrow> string list" where
  "units_of p =
     (if length p = 4 \<and> 240 \<le> (of_char (p ! 0) :: nat) \<and> 65536 \<le> scalar_of p
      then [three_bytes (55296 + (scalar_of p - 65536) div 1024),
            three_bytes (56320 + (scalar_of p - 65536) mod 1024)]
      else [p])"

definition code_units :: "string \<Rightarrow> string list" where
  "code_units s = concat (map units_of (code_points s))"

subsection \<open>Reading members\<close>

text \<open>
  The own index of a property key: \<^verbatim>\<open>xs["2"]\<close> is the third element, while
  \<^verbatim>\<open>xs["02"]\<close> is no element at all.
\<close>

definition own_index :: "string \<Rightarrow> nat \<Rightarrow> nat option" where
  "own_index k n = find (\<lambda>i. show_nat i = k) [0..<n]"

text \<open>
  \<^verbatim>\<open>v.k\<close> for the member names that the sources write out: \<^verbatim>\<open>type\<close>, \<^verbatim>\<open>props\<close>,
  \<^verbatim>\<open>variant\<close>, \<^verbatim>\<open>children\<close>, \<^verbatim>\<open>actions\<close>, \<^verbatim>\<open>event\<close>, \<^verbatim>\<open>tool\<close>, \<^verbatim>\<open>params\<close>, \<^verbatim>\<open>results\<close>,
  \<^verbatim>\<open>query\<close> and the members of the props (\<^verbatim>\<open>text\<close>, \<^verbatim>\<open>size\<close>, \<^verbatim>\<open>title\<close>, \<^verbatim>\<open>description\<close>,
  \<^verbatim>\<open>content\<close>, \<^verbatim>\<open>footer\<close>, \<^verbatim>\<open>trigger\<close>, \<^verbatim>\<open>columns\<close>, \<^verbatim>\<open>data\<close>, \<^verbatim>\<open>key\<close>, \<^verbatim>\<open>header\<close>, \<^verbatim>\<open>width\<close>,
  \<^verbatim>\<open>type\<close>, \<^verbatim>\<open>placeholder\<close>, \<^verbatim>\<open>value\<close>, \<^verbatim>\<open>fields\<close>, \<^verbatim>\<open>name\<close>, \<^verbatim>\<open>label\<close>, \<^verbatim>\<open>required\<close>,
  \<^verbatim>\<open>submitText\<close>, \<^verbatim>\<open>onSubmit\<close>). No built-in prototype defines a member of one of
  these names, so such a read finds an own data member or nothing: reading a member of
  undefined or null throws a TypeError, a missing member reads as undefined. The read
  under a computed name, which can meet an inherited member, is \<open>get_computed\<close> below.
\<close>

fun getp :: "jsval \<Rightarrow> string \<Rightarrow> jsval option" where
  "getp JUndefined k = None"
| "getp JNull k = None"
| "getp (JObj kvs) k = Some (case map_of kvs k of None \<Rightarrow> JUndefined | Some v \<Rightarrow> v)"
| "getp (JArr xs) k =
     Some (if k = ''length'' then JNum (int (length xs))
           else case own_index k (length xs) of None \<Rightarrow> JUndefined | Some i \<Rightarrow> xs ! i)"
| "getp (JStr s) k =
     Some (if k = ''length'' then JNum (int (length (code_units s)))
           else case own_index k (length (code_units s)) of
                  None \<Rightarrow> JUndefined
                | Some i \<Rightarrow> JStr (code_units s ! i))"
| "getp (JBool b) k = Some JUndefined"
| "getp (JNum i) k = Some JUndefined"

text \<open>\<^verbatim>\<open>v?.k\<close>: undefined for undefined and null, the member otherwise.\<close>

definition optget :: "jsval \<Rightarrow> string \<Rightarrow> jsval" where
  "optget v k = (case getp v k of None \<Rightarrow> JUndefined | Some w \<Rightarrow> w)"

text \<open>\<^verbatim>\<open>typeof v === 'string'\<close>.\<close>

fun is_string :: "jsval \<Rightarrow> bool" where
  "is_string (JStr s) = True"
| "is_string v = False"

text \<open>
  \<^verbatim>\<open>for (const x of v)\<close>: arrays yield their elements and strings their code points; any
  other value is not iterable.
\<close>

fun js_iterate :: "jsval \<Rightarrow> jsval list option" where
  "js_iterate (JArr xs) = Some xs"
| "js_iterate (JStr s) = Some (map JStr (code_points s))"
| "js_iterate v = None"

text \<open>
  The receiver of \<^verbatim>\<open>v.map(f)\<close> and \<^verbatim>\<open>v.find(f)\<close>: only arrays carry these methods, on
  every other value of the universe the call throws.
\<close>

fun array_of :: "jsval \<Rightarrow> jsval list option" where
  "array_of (JArr xs) = Some xs"
| "array_of v = None"

text \<open>\<^verbatim>\<open>xs.map(f)\<close> with a callback that may throw: the first exception ends the call.\<close>

fun map_opt :: "('a \<Rightarrow> 'b option) \<Rightarrow> 'a list \<Rightarrow> 'b list option" where
  "map_opt f [] = Some []"
| "map_opt f (x # xs) = do { y \<leftarrow> f x; ys \<leftarrow> map_opt f xs; Some (y # ys) }"

lemma map_opt_cong [fundef_cong]:
  "xs = ys \<Longrightarrow> (\<And>x. x \<in> set ys \<Longrightarrow> f x = g x) \<Longrightarrow> map_opt f xs = map_opt g ys"
proof (induction ys arbitrary: xs)
  case Nil
  then show ?case by simp
next
  case (Cons y ys)
  then show ?case by (simp cong: Option.bind_cong)
qed

subsection \<open>Conversion to a string\<close>

text \<open>
  \<^verbatim>\<open>String(v)\<close> and \<^verbatim>\<open>`${v}`\<close>. An array joins its elements with commas, undefined and
  null elements contributing nothing. An object is converted by its \<^verbatim>\<open>toString\<close>: the
  inherited one prints \<^verbatim>\<open>[object Object]\<close>; an own member of that name hides it and,
  being no function, leaves the object without a conversion, which is a TypeError.
\<close>

fun join_comma :: "string list \<Rightarrow> string" where
  "join_comma [] = []"
| "join_comma [s] = s"
| "join_comma (s # t # ss) = s @ '','' @ join_comma (t # ss)"

fun js_String :: "jsval \<Rightarrow> string option" where
  "js_String JUndefined = Some ''undefined''"
| "js_String JNull = Some ''null''"
| "js_String (JBool b) = Some (if b then ''true'' else ''false'')"
| "js_String (JNum i) = Some (show_int i)"
| "js_String (JStr s) = Some s"
| "js_String (JArr xs) =
     do {
       parts \<leftarrow> map_opt (\<lambda>x. if x = JUndefined \<or> x = JNull then Some [] else js_String x) xs;
       Some (join_comma parts)
     }"
| "js_String (JObj kvs) =
     (if map_of kvs ''toString'' = None then Some ''[object Object]'' else None)"


subsection \<open>Members under a computed name\<close>

text \<open>
  What \<^verbatim>\<open>row[key]\<close> can yield: a data value, a native function that the object inherits
  (known by its name), or the prototype object itself.
\<close>

datatype member = Data jsval | Native string | ObjectPrototype

text \<open>
  The members of \<^verbatim>\<open>Object.prototype\<close>: the constructor \<^verbatim>\<open>Object\<close>, ten methods, and the
  accessor \<^verbatim>\<open>__proto__\<close>, which yields the prototype.
\<close>

definition prototype_methods :: "string list" where
  "prototype_methods =
     [''__defineGetter__'', ''__defineSetter__'', ''hasOwnProperty'', ''__lookupGetter__'',
      ''__lookupSetter__'', ''isPrototypeOf'', ''propertyIsEnumerable'', ''toString'',
      ''valueOf'', ''toLocaleString'']"

definition inherited :: "string \<Rightarrow> member option" where
  "inherited k =
     (if k = ''constructor'' then Some (Native ''Object'')
      else if k = ''__proto__'' then Some ObjectPrototype
      else if k \<in> set prototype_methods then Some (Native k)
      else None)"

text \<open>
  \<^verbatim>\<open>v[k]\<close> for a computed string key \<open>k\<close>. On an object the own entry comes first, then
  the inherited member, then undefined. The sources apply it to the rows of a table,
  which are objects by their type; of any other receiver only the own data members are
  described.
\<close>

fun get_computed :: "jsval \<Rightarrow> string \<Rightarrow> member option" where
  "get_computed (JObj kvs) k =
     Some (case map_of kvs k of
             Some v \<Rightarrow> Data v
           | None \<Rightarrow> (case inherited k of Some m \<Rightarrow> m | None \<Rightarrow> Data JUndefined))"
| "get_computed v k = map_option Data (getp v k)"

text \<open>The text of a native function, as V8 prints it.\<close>

definition native_text :: "string \<Rightarrow> string" where
  "native_text name = ''function '' @ name @ ''() { [native code] }''"

text \<open>\<^verbatim>\<open>String(m ?? '')\<close> for a member \<open>m\<close>.\<close>

fun member_text :: "member \<Rightarrow> string option" where
  "member_text (Data v) = js_String (nullish v (JStr []))"
| "member_text (Native name) = Some (native_text name)"
| "member_text ObjectPrototype = Some ''[object Object]''"

section \<open>The component schema (mcp-schema.ts)\<close>

text \<open>
  An \<^verbatim>\<open>MCPUIComponent\<close> is an object with the members \<^verbatim>\<open>type\<close>, \<^verbatim>\<open>props\<close> and the
  optional \<^verbatim>\<open>variant\<close>, \<^verbatim>\<open>children\<close> and \<^verbatim>\<open>actions\<close>.
\<close>

definition createMCPComponent :: "jsval \<Rightarrow> jsval \<Rightarrow> jsval \<Rightarrow> jsval" where
  "createMCPComponent type props options =
     JObj [(''type'', type),
           (''props'', props),
           (''variant'', optget options ''variant''),
           (''children'', optget options ''children''),
           (''actions'', optget options ''actions'')]"

definition createDataTable :: "jsval \<Rightarrow> jsval \<Rightarrow> jsval \<Rightarrow> jsval" where
  "createDataTable columns data options =
     createMCPComponent (JStr ''data-table'')
       (JObj [(''columns'', columns),
              (''data'', data),
              (''pagination'', nullish (optget options ''pagination'') (JBool True)),
              (''pageSize'', nullish (optget options ''pageSize'') (JNum 10)),
              (''searchable'', nullish (optget options ''searchable'') (JBool False)),
              (''searchColumn'', optget options ''searchColumn'')])
       JUndefined"

definition createCard :: "jsval \<Rightarrow> jsval \<Rightarrow> jsval \<Rightarrow> jsval" where
  "createCard title content options =
     createMCPComponent (JStr ''card'')
       (JObj [(''title'', title),
              (''content'', content),
              (''description'', optget options ''description''),
              (''footer'', optget options ''footer'')])
       JUndefined"

definition validTypes :: "string list" where
  "validTypes = [''button'', ''card'', ''data-table'', ''dialog'', ''form'', ''input'',
                 ''chart'', ''alert'', ''badge'', ''toast'']"

text \<open>\<^verbatim>\<open>validTypes.includes(v)\<close>: only a string can equal one of the listed strings.\<close>

fun includes_str :: "string list \<Rightarrow> jsval \<Rightarrow> bool" where
  "includes_str xs (JStr s) = (s \<in> set xs)"
| "includes_str xs v = False"

text \<open>The two messages of the validator, the first followed by the offending type.\<close>

definition invalid_type_prefix :: string where
  "invalid_type_prefix =
     [CHR 0xE7, CHR 0x84, CHR 0xA1, CHR 0xE6, CHR 0x95, CHR 0x88, CHR 0xE7, CHR 0x9A,
      CHR 0x84, CHR 0xE7, CHR 0xB5, CHR 0x84, CHR 0xE4, CHR 0xBB, CHR 0xB6, CHR 0xE9,
      CHR 0xA1, CHR 0x9E, CHR 0xE5, CHR 0x9E, CHR 0x8B, CHR 0x3A, CHR 0x20]"

definition missing_props_msg :: string where
  "missing_props_msg =
     [CHR 0xE7, CHR 0xBC, CHR 0xBA, CHR 0xE5, CHR 0xB0, CHR 0x91, CHR 0x20] @ ''props''"

record validation =
  valid :: bool
  errors :: "string list"

text \<open>
  The body of the loop over the children: validate the child and append its errors; an
  exception in a child ends the loop.
\<close>

fun push_child_errors ::
  "(jsval \<Rightarrow> validation option) \<Rightarrow> jsval list \<Rightarrow> string list \<Rightarrow> string list option" where
  "push_child_errors f [] errs = Some errs"
| "push_child_errors f (child # rest) errs =
     do { childResult \<leftarrow> f child; push_child_errors f rest (errs @ errors childResult) }"

lemma push_child_errors_cong [fundef_cong]:
  "cs = cs' \<Longrightarrow> errs = errs' \<Longrightarrow> (\<And>c. c \<in> set cs' \<Longrightarrow> f c = g c)
   \<Longrightarrow> push_child_errors f cs errs = push_child_errors g cs' errs'"
proof (induction cs' arbitrary: cs errs errs')
  case Nil
  then show ?case by simp
next
  case (Cons c cs')
  then show ?case by (simp cong: Option.bind_cong)
qed

lemma show_nat_digits: "set (show_nat n) \<subseteq> set ''0123456789''"
proof (induction n rule: show_nat.induct)
  case (1 n)
  have d: "\<And>d. d < 10 \<Longrightarrow> ''0123456789'' ! d \<in> set ''0123456789''"
    by (rule nth_mem) simp
  show ?case
  proof (cases "n < 10")
    case True
    then show ?thesis using d [of n] by (subst show_nat.simps) simp
  next
    case False
    have "n mod 10 < 10" by simp
    then show ?thesis
      using 1 False d [of "n mod 10"] by (subst show_nat.simps) simp
  qed
qed

lemma own_index_letter:
  assumes "c \<in> set k" and "c \<notin> set ''0123456789''"
  shows "own_index k n = None"
proof -
  have "show_nat i \<noteq> k" for i
    using assms show_nat_digits [of i] by blast
  then show ?thesis by (simp add: own_index_def find_None_iff)
qed

lemma own_index_bound: "own_index k n = Some i \<Longrightarrow> i < n"
  by (auto simp: own_index_def find_Some_iff)

lemma size_elem: "x \<in> set xs \<Longrightarrow> size x < size (JArr xs)"
  by (induction xs) auto

lemma size_entry: "map_of kvs k = Some v \<Longrightarrow> size v < size (JObj kvs)"
  by (induction kvs) (auto split: if_splits)

text \<open>A member of a value is never larger than the value.\<close>

lemma getp_size_le: "getp v k = Some w \<Longrightarrow> size w \<le> size v"
proof (cases v)
  case (JArr xs)
  assume "getp v k = Some w"
  then show ?thesis
    using JArr size_elem [of "xs ! i" xs for i] own_index_bound [of k "length xs"]
    by (auto split: if_splits option.splits simp: less_imp_le)
next
  case (JObj kvs)
  assume "getp v k = Some w"
  then show ?thesis
    using JObj size_entry [of kvs k] by (auto split: option.splits simp: less_imp_le)
qed (auto split: if_splits option.splits)

text \<open>
  A member other than undefined, read under a name that is neither \<^verbatim>\<open>length\<close> nor an
  index, is strictly smaller: only objects have such members.
\<close>

lemma getp_size_less:
  assumes "getp v k = Some w" and "w \<noteq> JUndefined"
    and "k \<noteq> ''length''" and "c \<in> set k" and "c \<notin> set ''0123456789''"
  shows "size w < size v"
proof (cases v)
  case (JObj kvs)
  then show ?thesis
    using assms size_entry [of kvs k] by (auto split: option.splits)
qed (use assms own_index_letter [of c k] in auto)

lemma js_iterate_size: "js_iterate v = Some xs \<Longrightarrow> x \<in> set xs \<Longrightarrow> size x \<le> size v"
  using size_elem [of x] by (cases v) (auto simp: less_imp_le)

function validateMCPComponent :: "jsval \<Rightarrow> validation option" where
  "validateMCPComponent component =
     do {
       type \<leftarrow> getp component ''type'';
       errors1 \<leftarrow>
         (if \<not> includes_str validTypes type
          then do { shown \<leftarrow> js_String type; Some [invalid_type_prefix @ shown] }
          else Some []);
       props \<leftarrow> getp component ''props'';
       let errors2 = errors1 @ (if \<not> truthy props then [missing_props_msg] else []);
       children \<leftarrow> getp component ''children'';
       errs \<leftarrow>
         (if truthy children
          then do {
                 cs \<leftarrow> js_iterate children;
                 push_child_errors validateMCPComponent cs errors2
               }
          else Some errors2);
       Some \<lparr>valid = (length errs = 0), errors = errs\<rparr>
     }"
  by pat_completeness auto
termination
proof (relation "measure size")
  show "wf (measure size)" by simp
next
  fix component :: jsval and type errors1 props errors2 children cs c
  assume ch: "getp component ''children'' = Some children" and t: "truthy children"
    and it: "js_iterate children = Some cs" and c: "c \<in> set cs"
  have "children \<noteq> JUndefined" using t by auto
  then have "size children < size component"
    using getp_size_less [OF ch, of "CHR ''c''"] by simp
  moreover have "size c \<le> size children" using js_iterate_size [OF it c] .
  ultimately show "(c, component) \<in> measure size" by simp
qed

declare validateMCPComponent.simps [simp del]

text \<open>
  The interface \<^verbatim>\<open>MCPUIComponent\<close> as far as the validator depends on it: an object
  whose \<^verbatim>\<open>type\<close> is a string and whose \<^verbatim>\<open>children\<close>, when present, are an array of
  components. The \<^verbatim>\<open>props\<close> are left open, since the validator checks them itself.
\<close>

function is_component :: "jsval \<Rightarrow> bool" where
  "is_component (JObj kvs) =
     (is_string (optget (JObj kvs) ''type'') \<and>
      (case optget (JObj kvs) ''children'' of
         JUndefined \<Rightarrow> True
       | JArr cs \<Rightarrow> list_all is_component cs
       | _ \<Rightarrow> False))"
| "is_component JUndefined = False"
| "is_component JNull = False"
| "is_component (JBool b) = False"
| "is_component (JNum i) = False"
| "is_component (JStr s) = False"
| "is_component (JArr xs) = False"
  by pat_completeness auto
termination
proof (relation "measure size")
  show "wf (measure size)" by simp
next
  fix kvs cs c
  assume ch: "optget (JObj kvs) ''children'' = JArr cs" and c: "c \<in> set cs"
  have "size (JArr cs) < size (JObj kvs)"
    using ch size_entry [of kvs "''children''"] by (auto simp: optget_def split: option.splits)
  then show "(c, JObj kvs) \<in> measure size"
    using size_elem [OF c] by simp
qed

section \<open>The renderer (renderer.tsx)\<close>

text \<open>
  What a render returns: the tree of elements that the JSX of the source builds. An
  element has its tag, its data attributes and its children; a child is an element, a
  literal text or an embedded expression \<^verbatim>\<open>{e}\<close>, kept as the value of \<open>e\<close>. Nested
  \<^verbatim>\<open><MCPRenderer />\<close> elements are rendered in place. React keys and event handlers are
  no part of the tree; the handlers are the functions \<open>handleClick\<close> and \<open>handleSubmit\<close>
  below.
\<close>

datatype vnode =
    Element string "(string \<times> jsval) list" "vnode list"
  | Text string
  | Expr jsval

definition unknown_type_prefix :: string where
  "unknown_type_prefix =
     [CHR 0xE6, CHR 0x9C, CHR 0xAA, CHR 0xE7, CHR 0x9F, CHR 0xA5, CHR 0xE7, CHR 0xB5,
      CHR 0x84, CHR 0xE4, CHR 0xBB, CHR 0xB6, CHR 0xE9, CHR 0xA1, CHR 0x9E, CHR 0xE5,
      CHR 0x9E, CHR 0x8B, CHR 0x3A, CHR 0x20]"

definition submit_label :: string where
  "submit_label = [CHR 0xE9, CHR 0x80, CHR 0x81, CHR 0xE5, CHR 0x87, CHR 0xBA]"

text \<open>The \<^verbatim>\<open>default\<close> branch of the dispatch: a red note naming the type.\<close>

definition unknown_component :: "jsval \<Rightarrow> vnode" where
  "unknown_component type =
     Element ''div'' [(''className'', JStr ''text-red-500'')]
       [Text unknown_type_prefix, Expr type]"

text \<open>\<^verbatim>\<open>{c && (<Tag>...</Tag>)}\<close>: the element when \<open>c\<close> is truthy, the value of \<open>c\<close> otherwise.\<close>

definition when_truthy :: "jsval \<Rightarrow> vnode \<Rightarrow> vnode" where
  "when_truthy c node = (if truthy c then node else Expr c)"

definition MCPButton :: "jsval \<Rightarrow> vnode option" where
  "MCPButton component =
     do {
       props \<leftarrow> getp component ''props'';
       v \<leftarrow> getp component ''variant'';
       let variant = js_or v (JStr ''default'');
       size \<leftarrow> getp props ''size'';
       text \<leftarrow> getp props ''text'';
       Some (Element ''Button'' [(''variant'', variant), (''size'', size)] [Expr text])
     }"

definition MCPInput :: "jsval \<Rightarrow> vnode option" where
  "MCPInput component =
     do {
       props \<leftarrow> getp component ''props'';
       type \<leftarrow> getp props ''type'';
       placeholder \<leftarrow> getp props ''placeholder'';
       v \<leftarrow> getp props ''value'';
       Some (Element ''Input''
               [(''type'', js_or type (JStr ''text'')),
                (''placeholder'', placeholder),
                (''defaultValue'', v)] [])
     }"

text \<open>The three callbacks of \<^verbatim>\<open>MCPDataTable\<close>: a header cell, a body cell and a body row.\<close>

definition table_head :: "jsval \<Rightarrow> vnode option" where
  "table_head col =
     do {
       width \<leftarrow> getp col ''width'';
       header \<leftarrow> getp col ''header'';
       Some (Element ''TableHead'' [(''style'', JObj [(''width'', width)])] [Expr header])
     }"

text \<open>
  The body cell \<^verbatim>\<open>{String(row[col.key] ?? '')}\<close>: the key of the column is converted to
  a property key, the member of the row under it is read, and its text is the child.
\<close>

definition table_cell :: "jsval \<Rightarrow> jsval \<Rightarrow> vnode option" where
  "table_cell row col =
     do {
       key \<leftarrow> getp col ''key'';
       k \<leftarrow> js_String key;
       m \<leftarrow> get_computed row k;
       shown \<leftarrow> member_text m;
       Some (Element ''TableCell'' [] [Expr (JStr shown)])
     }"

definition table_row :: "jsval list \<Rightarrow> jsval \<Rightarrow> vnode option" where
  "table_row cols row =
     do {
       cells \<leftarrow> map_opt (table_cell row) cols;
       Some (Element ''TableRow'' [] cells)
     }"

definition MCPDataTable :: "jsval \<Rightarrow> vnode option" where
  "MCPDataTable component =
     do {
       props \<leftarrow> getp component ''props'';
       columns \<leftarrow> getp props ''columns'';
       cols \<leftarrow> array_of columns;
       heads \<leftarrow> map_opt table_head cols;
       data \<leftarrow> getp props ''data'';
       rows \<leftarrow> array_of data;
       body \<leftarrow> map_opt (table_row cols) rows;
       Some (Element ''div'' [(''className'', JStr ''rounded-md border'')]
               [Element ''Table'' []
                  [Element ''TableHeader'' [] [Element ''TableRow'' [] heads],
                   Element ''TableBody'' [] body]])
     }"

definition form_field :: "jsval \<Rightarrow> vnode option" where
  "form_field field =
     do {
       name \<leftarrow> getp field ''name'';
       label \<leftarrow> getp field ''label'';
       required \<leftarrow> getp field ''required'';
       type \<leftarrow> getp field ''type'';
       placeholder \<leftarrow> getp field ''placeholder'';
       Some (Element ''div'' [(''className'', JStr ''space-y-2'')]
               [Element ''label''
                  [(''htmlFor'', name), (''className'', JStr ''text-sm font-medium'')]
                  [Expr label,
                   when_truthy required
                     (Element ''span'' [(''className'', JStr ''text-red-500'')] [Text ''*''])],
                Element ''Input''
                  [(''id'', name), (''name'', name), (''type'', type),
                   (''placeholder'', placeholder), (''required'', required)] []])
     }"

definition MCPForm :: "jsval \<Rightarrow> vnode option" where
  "MCPForm component =
     do {
       props \<leftarrow> getp component ''props'';
       fields \<leftarrow> getp props ''fields'';
       fs \<leftarrow> array_of fields;
       rendered \<leftarrow> map_opt form_field fs;
       submitText \<leftarrow> getp props ''submitText'';
       Some (Element ''form'' [(''className'', JStr ''space-y-4'')]
               (rendered @
                [Element ''Button'' [(''type'', JStr ''submit'')]
                   [Expr (js_or submitText (JStr submit_label))]]))
     }"

lemma nested_member_size:
  assumes "getp component ''props'' = Some props" and "getp props k = Some w"
  shows "size w < size component"
proof -
  from assms(2) have "props \<noteq> JUndefined" by auto
  then have "size props < size component"
    using getp_size_less [OF assms(1), of "CHR ''p''"] by simp
  then show ?thesis using getp_size_le [OF assms(2)] by simp
qed

text \<open>
  The entry point with the two composite components, which render their nested
  components through it. The dialog is rendered with its content, as it shows once
  opened.
\<close>

function MCPRenderer :: "jsval \<Rightarrow> vnode option"
  and MCPCard :: "jsval \<Rightarrow> vnode option"
  and MCPDialog :: "jsval \<Rightarrow> vnode option" where
  "MCPRenderer component =
     do {
       type \<leftarrow> getp component ''type'';
       if type = JStr ''button'' then MCPButton component
       else if type = JStr ''card'' then MCPCard component
       else if type = JStr ''data-table'' then MCPDataTable component
       else if type = JStr ''dialog'' then MCPDialog component
       else if type = JStr ''input'' then MCPInput component
       else if type = JStr ''form'' then MCPForm component
       else Some (unknown_component type)
     }"
| "MCPCard component =
     do {
       props \<leftarrow> getp component ''props'';
       title \<leftarrow> getp props ''title'';
       description \<leftarrow> getp props ''description'';
       content \<leftarrow> getp props ''content'';
       inner \<leftarrow>
         (if is_string content then Some (Element ''p'' [] [Expr content])
          else MCPRenderer content);
       footer \<leftarrow> getp props ''footer'';
       foot \<leftarrow>
         (if truthy footer
          then do {
                 f \<leftarrow>
                   (if is_string footer then Some (Element ''p'' [] [Expr footer])
                    else MCPRenderer footer);
                 Some (Element ''CardFooter'' [] [f])
               }
          else Some (Expr footer));
       Some (Element ''Card'' []
               [Element ''CardHeader'' []
                  [Element ''CardTitle'' [] [Expr title],
                   when_truthy description (Element ''CardDescription'' [] [Expr description])],
                Element ''CardContent'' [] [inner],
                foot])
     }"
| "MCPDialog component =
     do {
       props \<leftarrow> getp component ''props'';
       trigger \<leftarrow> getp props ''trigger'';
       opener \<leftarrow> MCPRenderer trigger;
       title \<leftarrow> getp props ''title'';
       description \<leftarrow> getp props ''description'';
       content \<leftarrow> getp props ''content'';
       inner \<leftarrow> MCPRenderer content;
       Some (Element ''Dialog'' []
               [Element ''DialogTrigger'' [(''asChild'', JBool True)] [opener],
                Element ''DialogContent'' []
                  [Element ''DialogHeader'' []
                     [Element ''DialogTitle'' [] [Expr title],
                      when_truthy description
                        (Element ''DialogDescription'' [] [Expr description])],
                   inner]])
     }"
  by pat_completeness auto
termination
  by (relation "measure (\<lambda>x. case x of
          Inl c \<Rightarrow> 2 * size c + 1 | Inr (Inl c) \<Rightarrow> 2 * size c | Inr (Inr c) \<Rightarrow> 2 * size c)")
     (auto dest: nested_member_size)

declare MCPRenderer.simps [simp del] MCPCard.simps [simp del] MCPDialog.simps [simp del]

subsection \<open>The event handlers\<close>

text \<open>
  What a handler does is the list of calls it makes: to the callback \<^verbatim>\<open>onAction\<close> of the
  caller when one was supplied, to \<^verbatim>\<open>console.log\<close> otherwise, each with the tool and the
  parameters.
\<close>

datatype effect = Called jsval jsval | Logged jsval jsval

definition handleAction :: "bool \<Rightarrow> jsval \<Rightarrow> jsval \<Rightarrow> effect list" where
  "handleAction supplied tool params =
     (if supplied then [Called tool params] else [Logged tool params])"

text \<open>
  \<^verbatim>\<open>xs.find(p)\<close> with a predicate that may throw: the first element that satisfies it,
  undefined when there is none.
\<close>

fun find_opt :: "(jsval \<Rightarrow> bool option) \<Rightarrow> jsval list \<Rightarrow> jsval option" where
  "find_opt p [] = Some JUndefined"
| "find_opt p (x # xs) = do { b \<leftarrow> p x; if b then Some x else find_opt p xs }"

definition handleClick :: "bool \<Rightarrow> jsval \<Rightarrow> effect list option" where
  "handleClick supplied component =
     do {
       actions \<leftarrow> getp component ''actions'';
       clickAction \<leftarrow>
         (if actions = JUndefined \<or> actions = JNull then Some JUndefined
          else do {
                 as \<leftarrow> array_of actions;
                 find_opt (\<lambda>a. do { ev \<leftarrow> getp a ''event''; Some (ev = JStr ''click'') }) as
               });
       if truthy clickAction
       then do {
              tool \<leftarrow> getp clickAction ''tool'';
              params \<leftarrow> getp clickAction ''params'';
              Some (handleAction supplied tool params)
            }
       else Some []
     }"

text \<open>
  \<^verbatim>\<open>Object.fromEntries(formData.entries())\<close>: the values of the form keyed by field name,
  a later entry of the same name replacing the earlier one. The form renders text
  inputs only, so every value is a string.
\<close>

definition fromEntries :: "(string \<times> string) list \<Rightarrow> (string \<times> jsval) list" where
  "fromEntries entries = foldl (\<lambda>acc (k, v). AList.update k (JStr v) acc) [] entries"

text \<open>
  \<^verbatim>\<open>{ ...v }\<close>: the own members of an object, the elements of an array and the code
  units of a string under their indices, nothing for any other value.
\<close>

fun spread :: "jsval \<Rightarrow> (string \<times> jsval) list" where
  "spread (JObj kvs) = kvs"
| "spread (JArr xs) = zip (map show_nat [0..<length xs]) xs"
| "spread (JStr s) = zip (map show_nat [0..<length (code_units s)]) (map JStr (code_units s))"
| "spread v = []"

text \<open>
  A submission of the form: \<^verbatim>\<open>e.preventDefault()\<close> comes first, so the default is
  prevented even when the rest throws.
\<close>

record submission =
  defaultPrevented :: bool
  effects :: "effect list option"

definition handleSubmit :: "bool \<Rightarrow> jsval \<Rightarrow> (string \<times> string) list \<Rightarrow> submission" where
  "handleSubmit supplied component entries =
     \<lparr>defaultPrevented = True,
      effects =
        do {
          let data = JObj (fromEntries entries);
          props \<leftarrow> getp component ''props'';
          onSubmit \<leftarrow> getp props ''onSubmit'';
          if truthy onSubmit
          then do {
                 tool \<leftarrow> getp onSubmit ''tool'';
                 params \<leftarrow> getp onSubmit ''params'';
                 Some (handleAction supplied tool
                         (JObj (AList.update ''formData'' data (spread params))))
               }
          else Some []
        }\<rparr>"

subsection \<open>Well-typed table data\<close>




section \<open>The store (rag-store) and the search route\<close>

text \<open>
  The rows of the two tables, as \<^verbatim>\<open>lib/supabase\<close> declares them: \<^verbatim>\<open>Document\<close> and
  \<^verbatim>\<open>Regulation\<close> share \<^verbatim>\<open>id\<close>, \<^verbatim>\<open>content\<close>, \<^verbatim>\<open>source\<close>, \<^verbatim>\<open>chunk_idx\<close>, \<^verbatim>\<open>embedding\<close> and
  \<^verbatim>\<open>created_at\<close>. The member \<^verbatim>\<open>id\<close> is the field \<open>id_key\<close> here; optional members hold
  \<^term>\<open>JUndefined\<close> or \<^term>\<open>None\<close> when absent.
\<close>

record row =
  id_key :: string
  content :: string
  source :: string
  chunk_idx :: int
  embedding :: jsval
  created_at :: string

record document = row +
  metadata :: jsval

record regulation = row +
  article_no :: "string option"

text \<open>
  The state of the store. \<^verbatim>\<open>searchResults\<close> is a dynamic value: it receives a member of
  a parsed response body as it comes, whereas the two lists are only written from rows.
\<close>

record rag_state =
  documents :: "document list"
  regulations :: "regulation list"
  isLoading :: bool
  isSubscribed :: bool
  error :: "string option"
  searchResults :: jsval
  lastQuery :: "string option"

definition initial_state :: rag_state where
  "initial_state =
     \<lparr>documents = [], regulations = [], isLoading = False, isSubscribed = False,
      error = None, searchResults = JArr [], lastQuery = None\<rparr>"

text \<open>
  An awaited promise either fulfils with a value or rejects with an \<^verbatim>\<open>Error\<close>, of which
  the store keeps the message.
\<close>

datatype 'a settled = Fulfilled 'a | RejectedWith string

text \<open>
  The reply of a table query, \<^verbatim>\<open>{ data, error }\<close>: the rows or null, and the message of the
  error object or null.
\<close>

datatype 'r reply = Reply "'r list option" "string option"

subsection \<open>fetchDocuments and fetchRegulations\<close>

text \<open>
  Each action writes the state twice: before the query is awaited and when it settles.
  Other events may be handled in between, so the two writes are separate functions, and
  the action run without interruption is their composition.
\<close>

definition fetch_begin :: "rag_state \<Rightarrow> rag_state" where
  "fetch_begin state = state\<lparr>isLoading := True, error := None\<rparr>"

fun fetchDocuments_settle :: "document reply settled \<Rightarrow> rag_state \<Rightarrow> rag_state" where
  "fetchDocuments_settle (Fulfilled (Reply data None)) state =
     state\<lparr>documents := (case data of None \<Rightarrow> [] | Some rows \<Rightarrow> rows), isLoading := False\<rparr>"
| "fetchDocuments_settle (Fulfilled (Reply data (Some message))) state =
     state\<lparr>error := Some message, isLoading := False\<rparr>"
| "fetchDocuments_settle (RejectedWith message) state =
     state\<lparr>error := Some message, isLoading := False\<rparr>"

definition fetchDocuments :: "document reply settled \<Rightarrow> rag_state \<Rightarrow> rag_state" where
  "fetchDocuments outcome state = fetchDocuments_settle outcome (fetch_begin state)"

fun fetchRegulations_settle :: "regulation reply settled \<Rightarrow> rag_state \<Rightarrow> rag_state" where
  "fetchRegulations_settle (Fulfilled (Reply data None)) state =
     state\<lparr>regulations := (case data of None \<Rightarrow> [] | Some rows \<Rightarrow> rows), isLoading := False\<rparr>"
| "fetchRegulations_settle (Fulfilled (Reply data (Some message))) state =
     state\<lparr>error := Some message, isLoading := False\<rparr>"
| "fetchRegulations_settle (RejectedWith message) state =
     state\<lparr>error := Some message, isLoading := False\<rparr>"

definition fetchRegulations :: "regulation reply settled \<Rightarrow> rag_state \<Rightarrow> rag_state" where
  "fetchRegulations outcome state = fetchRegulations_settle outcome (fetch_begin state)"

text \<open>The query of a fetch fails when it replies with an error or rejects.\<close>

fun failure_message :: "'r reply settled \<Rightarrow> string option" where
  "failure_message (Fulfilled (Reply data err)) = err"
| "failure_message (RejectedWith message) = Some message"

subsection \<open>searchDocuments\<close>

record http_response =
  status :: nat
  json :: "jsval settled"

definition ok :: "http_response \<Rightarrow> bool" where
  "ok response = (200 \<le> status response \<and> status response \<le> 299)"

definition search_failed_msg :: string where
  "search_failed_msg =
     [CHR 0xE6, CHR 0x90, CHR 0x9C, CHR 0xE5, CHR 0xB0, CHR 0x8B, CHR 0xE5, CHR 0xA4,
      CHR 0xB1, CHR 0xE6, CHR 0x95, CHR 0x97]"

text \<open>The body that the store posts, \<^verbatim>\<open>JSON.stringify({ query, limit })\<close>.\<close>

definition search_request :: "string \<Rightarrow> int \<Rightarrow> jsval" where
  "search_request query limit = JObj [(''query'', JStr query), (''limit'', JNum limit)]"

definition searchDocuments_begin :: "string \<Rightarrow> rag_state \<Rightarrow> rag_state" where
  "searchDocuments_begin query state =
     state\<lparr>isLoading := True, error := None, lastQuery := Some query\<rparr>"

definition search_fail :: "string \<Rightarrow> rag_state \<Rightarrow> rag_state" where
  "search_fail message state = state\<lparr>error := Some message, isLoading := False\<rparr>"

text \<open>
  The second write. \<open>tmsg\<close> is the message of the TypeError that the engine raises when
  \<^verbatim>\<open>const { results } = ...\<close> destructures null or undefined.
\<close>

fun searchDocuments_settle ::
  "string \<Rightarrow> http_response settled \<Rightarrow> rag_state \<Rightarrow> rag_state" where
  "searchDocuments_settle tmsg (RejectedWith message) state = search_fail message state"
| "searchDocuments_settle tmsg (Fulfilled response) state =
     (if \<not> ok response then search_fail search_failed_msg state
      else case json response of
             RejectedWith message \<Rightarrow> search_fail message state
           | Fulfilled body \<Rightarrow>
               (case getp body ''results'' of
                  None \<Rightarrow> search_fail tmsg state
                | Some results \<Rightarrow> state\<lparr>searchResults := results, isLoading := False\<rparr>))"

definition searchDocuments ::
  "string \<Rightarrow> string \<Rightarrow> http_response settled \<Rightarrow> rag_state \<Rightarrow> rag_state" where
  "searchDocuments tmsg query outcome state =
     searchDocuments_settle tmsg outcome (searchDocuments_begin query state)"

text \<open>A search fails when the request rejects, the status is not 2xx or the body does not parse.\<close>

fun search_succeeds :: "http_response settled \<Rightarrow> bool" where
  "search_succeeds (RejectedWith message) = False"
| "search_succeeds (Fulfilled response) =
     (ok response \<and> (case json response of
                        RejectedWith message \<Rightarrow> False
                      | Fulfilled body \<Rightarrow> body \<noteq> JUndefined \<and> body \<noteq> JNull))"

subsection \<open>The search route (app/api/rag/search/route.ts)\<close>

text \<open>
  The handler \<^verbatim>\<open>POST\<close> of the endpoint that \<^verbatim>\<open>searchDocuments\<close> posts to. Its two
  collaborators are external and enter as their outcomes: \<^verbatim>\<open>generateEmbedding\<close> fulfils
  with a vector, of which the handler reports the length, and the ranking function
  replies with \<^verbatim>\<open>{ data, error }\<close>. Whatever is thrown inside the handler is an
  \<^verbatim>\<open>Error\<close>, so the \<^verbatim>\<open>catch\<close> answers with its message and status 500; \<open>tmsg\<close> is again
  the message of the TypeError for destructuring null.
\<close>

record rpc_reply =
  rpc_data :: jsval
  rpc_error :: "string option"

definition missing_query_msg :: string where
  "missing_query_msg =
     [CHR 0xE7, CHR 0xBC, CHR 0xBA, CHR 0xE5, CHR 0xB0, CHR 0x91, CHR 0xE6, CHR 0x9F,
      CHR 0xA5, CHR 0xE8, CHR 0xA9, CHR 0xA2, CHR 0xE5, CHR 0x8F, CHR 0x83, CHR 0xE6,
      CHR 0x95, CHR 0xB8]"

definition rpc_failed_prefix :: string where
  "rpc_failed_prefix =
     [CHR 0xE8, CHR 0xB3, CHR 0x87, CHR 0xE6, CHR 0x96, CHR 0x99, CHR 0xE5, CHR 0xBA,
      CHR 0xAB, CHR 0xE6, CHR 0x90, CHR 0x9C, CHR 0xE5, CHR 0xB0, CHR 0x8B, CHR 0xE5,
      CHR 0xA4, CHR 0xB1, CHR 0xE6, CHR 0x95, CHR 0x97, CHR 0x3A, CHR 0x20]"

text \<open>\<^verbatim>\<open>NextResponse.json(body, { status })\<close>, the status being 200 when not given.\<close>

definition json_response :: "nat \<Rightarrow> (string \<times> jsval) list \<Rightarrow> http_response" where
  "json_response st members = \<lparr>status = st, json = Fulfilled (JObj members)\<rparr>"

definition error_response :: "nat \<Rightarrow> string \<Rightarrow> http_response" where
  "error_response st message = json_response st [(''error'', JStr message)]"

fun POST :: "string \<Rightarrow> jsval settled \<Rightarrow> nat settled \<Rightarrow> rpc_reply settled \<Rightarrow> http_response" where
  "POST tmsg (RejectedWith message) emb rpc = error_response 500 message"
| "POST tmsg (Fulfilled body) emb rpc =
     (case getp body ''query'' of
        None \<Rightarrow> error_response 500 tmsg
      | Some query \<Rightarrow>
          if \<not> truthy query \<or> \<not> is_string query then error_response 400 missing_query_msg
          else case emb of
                 RejectedWith message \<Rightarrow> error_response 500 message
               | Fulfilled dimension \<Rightarrow>
                   (case rpc of
                      RejectedWith message \<Rightarrow> error_response 500 message
                    | Fulfilled reply \<Rightarrow>
                        (case rpc_error reply of
                           Some message \<Rightarrow> error_response 500 (rpc_failed_prefix @ message)
                         | None \<Rightarrow>
                             json_response 200
                               [(''success'', JBool True),
                                (''data'', js_or (rpc_data reply) (JArr [])),
                                (''query'', query),
                                (''embedding_dimension'', JNum (int dimension))])))"

subsection \<open>subscribe and reset\<close>

text \<open>
  A change event of a table, \<^verbatim>\<open>{ eventType, new, old }\<close>, with the casts of the handlers
  (\<^verbatim>\<open>payload.new as Document\<close>) taken at their word.
\<close>

record 'r payload =
  eventType :: string
  new :: 'r
  old :: 'r

text \<open>
  The two callbacks that \<^verbatim>\<open>subscribe\<close> registers. Each is one \<^verbatim>\<open>set\<close> with an updater;
  \<^verbatim>\<open>set\<close> merges the returned members into the state.
\<close>

definition on_documents_change :: "document payload \<Rightarrow> rag_state \<Rightarrow> rag_state" where
  "on_documents_change payload state =
     (if eventType payload = ''INSERT''
      then state\<lparr>documents := new payload # documents state\<rparr>
      else if eventType payload = ''UPDATE''
      then state\<lparr>documents :=
             map (\<lambda>doc. if id_key doc = id_key (new payload) then new payload else doc)
               (documents state)\<rparr>
      else if eventType payload = ''DELETE''
      then state\<lparr>documents :=
             filter (\<lambda>doc. id_key doc \<noteq> id_key (old payload)) (documents state)\<rparr>
      else state)"

definition on_regulations_change :: "regulation payload \<Rightarrow> rag_state \<Rightarrow> rag_state" where
  "on_regulations_change payload state =
     (if eventType payload = ''INSERT''
      then state\<lparr>regulations := new payload # regulations state\<rparr>
      else if eventType payload = ''UPDATE''
      then state\<lparr>regulations :=
             map (\<lambda>reg. if id_key reg = id_key (new payload) then new payload else reg)
               (regulations state)\<rparr>
      else if eventType payload = ''DELETE''
      then state\<lparr>regulations :=
             filter (\<lambda>reg. id_key reg \<noteq> id_key (old payload)) (regulations state)\<rparr>
      else state)"

text \<open>
  The store together with what \<^verbatim>\<open>subscribe\<close> touches outside of it: the two module-level
  channel references and the channels that exist in the realtime client. A reference is
  the position of the channel in that list.
\<close>

record channel =
  topic :: string
  table :: string
  joined :: bool

record world =
  store :: rag_state
  documentChannel :: "nat option"
  regulationChannel :: "nat option"
  channels :: "channel list"

text \<open>\<^verbatim>\<open>supabase.channel(topic).on(..., { table }, callback).subscribe()\<close>.\<close>

definition open_channel :: "string \<Rightarrow> string \<Rightarrow> world \<Rightarrow> nat \<times> world" where
  "open_channel name tbl w =
     (length (channels w),
      w\<lparr>channels := channels w @ [\<lparr>topic = name, table = tbl, joined = True\<rparr>]\<rparr>)"

text \<open>\<^verbatim>\<open>ref?.unsubscribe()\<close>.\<close>

fun unsubscribe :: "nat option \<Rightarrow> world \<Rightarrow> world" where
  "unsubscribe None w = w"
| "unsubscribe (Some c) w =
     (if c < length (channels w)
      then w\<lparr>channels := (channels w)[c := (channels w ! c)\<lparr>joined := False\<rparr>]\<rparr>
      else w)"

text \<open>The two closures that \<^verbatim>\<open>subscribe\<close> can return, and what calling them does.\<close>

datatype cleanup = Noop | Release

fun run_cleanup :: "cleanup \<Rightarrow> world \<Rightarrow> world" where
  "run_cleanup Noop w = w"
| "run_cleanup Release w =
     (let w1 = unsubscribe (documentChannel w) w;
          w2 = unsubscribe (regulationChannel w1) w1;
          w3 = w2\<lparr>documentChannel := None, regulationChannel := None\<rparr>
      in w3\<lparr>store := (store w3)\<lparr>isSubscribed := False\<rparr>\<rparr>)"

definition subscribe :: "world \<Rightarrow> cleanup \<times> world" where
  "subscribe w =
     (if isSubscribed (store w) then (Noop, w)
      else
        let (d, w1) = open_channel ''documents-changes'' ''documents'' w;
            w2 = w1\<lparr>documentChannel := Some d\<rparr>;
            (r, w3) = open_channel ''regulations-changes'' ''regulations'' w2;
            w4 = w3\<lparr>regulationChannel := Some r\<rparr>
        in (Release, w4\<lparr>store := (store w4)\<lparr>isSubscribed := True\<rparr>\<rparr>))"

definition reset :: "rag_state \<Rightarrow> rag_state" where
  "reset state =
     state\<lparr>documents := [], regulations := [], searchResults := JArr [],
           isLoading := False, error := None, lastQuery := None\<rparr>"

text \<open>An action of the store, run in the world: the references and channels stay.\<close>

definition in_world :: "(rag_state \<Rightarrow> rag_state) \<Rightarrow> world \<Rightarrow> world" where
  "in_world action w = w\<lparr>store := action (store w)\<rparr>"

section \<open>Properties of the validator\<close>

lemma valid_iff_no_errors:
  "validateMCPComponent v = Some r \<Longrightarrow> valid r = (errors r = [])"
  by (subst (asm) validateMCPComponent.simps) (auto split: Option.bind_splits if_splits simp: Let_def)

text \<open>When every child validates, the loop returns the errors so far followed by theirs.\<close>

lemma push_child_errors_returns:
  "\<forall>c\<in>set cs. \<exists>r. f c = Some r \<Longrightarrow>
   \<exists>es. \<forall>errs. push_child_errors f cs errs = Some (errs @ es)"
proof (induction cs)
  case Nil
  then show ?case by simp
next
  case (Cons c cs)
  then obtain r where r: "f c = Some r" by auto
  from Cons obtain es where "\<forall>errs. push_child_errors f cs errs = Some (errs @ es)"
    by fastforce
  then have "\<forall>errs. push_child_errors f (c # cs) errs = Some (errs @ (errors r @ es))"
    using r by simp
  then show ?case by blast
qed

text \<open>
  On a component tree the validator returns, and the error about the type of the root,
  if there is one, comes first.
\<close>

lemma validate_returns:
  "is_component c \<Longrightarrow>
   \<exists>kind es. optget c ''type'' = JStr kind \<and>
     validateMCPComponent c =
       Some \<lparr>valid = ((if kind \<notin> set validTypes
                         then [invalid_type_prefix @ kind] else []) @ es = []),
             errors = (if kind \<notin> set validTypes
                         then [invalid_type_prefix @ kind] else []) @ es\<rparr>"
proof (induction c rule: is_component.induct)
  case (1 kvs)
  then obtain kind where k: "optget (JObj kvs) ''type'' = JStr kind"
    by (cases "optget (JObj kvs) ''type''") auto
  show ?case
  proof (cases "optget (JObj kvs) ''children''")
    case JUndefined
    then show ?thesis using k
      by (subst validateMCPComponent.simps) (simp add: optget_def Let_def)
  next
    case (JArr cs)
    with 1 have "\<forall>c\<in>set cs. \<exists>r. validateMCPComponent c = Some r"
      by (fastforce simp: list_all_iff)
    from push_child_errors_returns [OF this]
    obtain es where "\<forall>errs. push_child_errors validateMCPComponent cs errs = Some (errs @ es)"
      by blast
    then show ?thesis using JArr k
      by (subst validateMCPComponent.simps) (simp add: optget_def Let_def)
  qed (use 1 in auto)
qed simp_all

lemma validate_created:
  "includes_str validTypes type \<Longrightarrow> truthy props \<Longrightarrow>
   validateMCPComponent (createMCPComponent type props JUndefined) =
     Some \<lparr>valid = True, errors = []\<rparr>"
  by (subst validateMCPComponent.simps) (simp add: createMCPComponent_def optget_def)

text \<open>
  Claim C9. Whenever the validator returns, \<^verbatim>\<open>valid\<close> is true exactly when the list of
  errors is empty. On every component tree it does return, and if the type of the root
  is a string outside the ten listed types, then \<^verbatim>\<open>valid\<close> is false and the errors
  contain the message naming that type.
\<close>

theorem validate_rejects_unknown_kind:
  "(validateMCPComponent v = Some r \<longrightarrow> valid r = (errors r = [])) \<and>
   (is_component c \<longrightarrow>
      (\<exists>r. validateMCPComponent c = Some r \<and> valid r = (errors r = []) \<and>
        (\<forall>kind. getp c ''type'' = Some (JStr kind) \<and> kind \<notin> set validTypes \<longrightarrow>
           \<not> valid r \<and> invalid_type_prefix @ kind \<in> set (errors r))))"
proof (intro conjI impI)
  assume "validateMCPComponent v = Some r"
  then show "valid r = (errors r = [])" by (rule valid_iff_no_errors)
next
  assume "is_component c"
  from validate_returns [OF this] obtain kind es where
    k: "optget c ''type'' = JStr kind" and
    r: "validateMCPComponent c =
       Some \<lparr>valid = ((if kind \<notin> set validTypes
                         then [invalid_type_prefix @ kind] else []) @ es = []),
             errors = (if kind \<notin> set validTypes
                         then [invalid_type_prefix @ kind] else []) @ es\<rparr>"
    by blast
  show "\<exists>r. validateMCPComponent c = Some r \<and> valid r = (errors r = []) \<and>
        (\<forall>kind. getp c ''type'' = Some (JStr kind) \<and> kind \<notin> set validTypes \<longrightarrow>
           \<not> valid r \<and> invalid_type_prefix @ kind \<in> set (errors r))"
    unfolding r using k by (auto simp: optget_def)
qed

theorem validate_rejects_unknown_kind_witness:
  "is_component
     (JObj [(''type'', JStr ''widget''), (''props'', JObj []),
            (''children'', JArr [JObj [(''type'', JStr ''button''), (''props'', JObj [])],
                                 JObj [(''type'', JStr ''gadget'')]])]) \<and>
   getp (JObj [(''type'', JStr ''widget''), (''props'', JObj []),
            (''children'', JArr [JObj [(''type'', JStr ''button''), (''props'', JObj [])],
                                 JObj [(''type'', JStr ''gadget'')]])]) ''type''
     = Some (JStr ''widget'') \<and>
   ''widget'' \<notin> set validTypes \<and>
   validateMCPComponent
     (JObj [(''type'', JStr ''widget''), (''props'', JObj []),
            (''children'', JArr [JObj [(''type'', JStr ''button''), (''props'', JObj [])],
                                 JObj [(''type'', JStr ''gadget'')]])])
     = Some \<lparr>valid = False,
            errors = [invalid_type_prefix @ ''widget'', invalid_type_prefix @ ''gadget'',
                      missing_props_msg]\<rparr> \<and>
   invalid_type_prefix @ ''widget'' \<in>
     set [invalid_type_prefix @ ''widget'', invalid_type_prefix @ ''gadget'', missing_props_msg]"
  using validate_rejects_unknown_kind
    [of "JObj [(''type'', JStr ''widget''), (''props'', JObj []),
            (''children'', JArr [JObj [(''type'', JStr ''button''), (''props'', JObj [])],
                                 JObj [(''type'', JStr ''gadget'')]])]"
        "\<lparr>valid = False,
            errors = [invalid_type_prefix @ ''widget'', invalid_type_prefix @ ''gadget'',
                      missing_props_msg]\<rparr>"
        "JObj [(''type'', JStr ''widget''), (''props'', JObj []),
            (''children'', JArr [JObj [(''type'', JStr ''button''), (''props'', JObj [])],
                                 JObj [(''type'', JStr ''gadget'')]])]"]
  by (simp add: validateMCPComponent.simps optget_def validTypes_def)

text \<open>
  Claim C10. A component built by \<^verbatim>\<open>createDataTable\<close> or by \<^verbatim>\<open>createCard\<close> passes the
  validator, whatever the arguments: the result is \<^verbatim>\<open>valid = true\<close> with no errors, since
  the type is one of the ten, the props are an object and no children are attached.
\<close>

theorem factories_pass_validation:
  "validateMCPComponent (createDataTable columns data options) =
     Some \<lparr>valid = True, errors = []\<rparr> \<and>
   validateMCPComponent (createCard title body options') =
     Some \<lparr>valid = True, errors = []\<rparr>"
  unfolding createDataTable_def createCard_def
  by (simp add: validate_created validTypes_def)

section \<open>Properties of the renderer\<close>



text \<open>
  The dispatch: each of the six types that the \<^verbatim>\<open>switch\<close> lists goes to its component,
  every other value of \<^verbatim>\<open>type\<close> to the note of the default branch, without an exception.
\<close>

lemma dispatch_listed:
  assumes "getp component ''type'' = Some (JStr kind)"
  shows "kind = ''button'' \<Longrightarrow> MCPRenderer component = MCPButton component"
    and "kind = ''card'' \<Longrightarrow> MCPRenderer component = MCPCard component"
    and "kind = ''data-table'' \<Longrightarrow> MCPRenderer component = MCPDataTable component"
    and "kind = ''dialog'' \<Longrightarrow> MCPRenderer component = MCPDialog component"
    and "kind = ''input'' \<Longrightarrow> MCPRenderer component = MCPInput component"
    and "kind = ''form'' \<Longrightarrow> MCPRenderer component = MCPForm component"
  using assms by (simp_all add: MCPRenderer.simps)

lemma dispatch_default:
  assumes "getp component ''type'' = Some type"
    and "type \<notin> JStr ` {''button'', ''card'', ''data-table'', ''dialog'', ''input'', ''form''}"
  shows "MCPRenderer component = Some (unknown_component type)"
  using assms by (auto simp: MCPRenderer.simps)

text \<open>
  Claim C6, at a chart built by the factory with the props of \<^verbatim>\<open>ChartProps\<close>: the
  validator accepts it, \<^verbatim>\<open>chart\<close> being one of the ten types, and the renderer, whose
  \<^verbatim>\<open>switch\<close> has no case for it, returns the note for an unknown type.
\<close>

theorem chart_renders_as_unknown:
  "validateMCPComponent
     (createMCPComponent (JStr ''chart'')
        (JObj [(''type'', JStr ''bar''), (''data'', JArr []), (''xKey'', JStr ''x''),
               (''yKey'', JStr ''y'')]) JUndefined)
     = Some \<lparr>valid = True, errors = []\<rparr> \<and>
   MCPRenderer
     (createMCPComponent (JStr ''chart'')
        (JObj [(''type'', JStr ''bar''), (''data'', JArr []), (''xKey'', JStr ''x''),
               (''yKey'', JStr ''y'')]) JUndefined)
     = Some (Element ''div'' [(''className'', JStr ''text-red-500'')]
               [Text unknown_type_prefix, Expr (JStr ''chart'')])"
  by (simp add: validate_created validTypes_def)
     (simp add: MCPRenderer.simps createMCPComponent_def unknown_component_def)

text \<open>The same holds of the other three listed types without a case, whatever the props.\<close>

lemma listed_types_without_case:
  "kind \<in> {''chart'', ''alert'', ''badge'', ''toast''} \<Longrightarrow>
   kind \<in> set validTypes \<and>
   MCPRenderer (createMCPComponent (JStr kind) props options) =
     Some (unknown_component (JStr kind))"
  by (auto simp: validTypes_def MCPRenderer.simps createMCPComponent_def)

lemma fromEntries_lookup_gen:
  "map_of (foldl (\<lambda>acc (k, v). AList.update k (JStr v) acc) acc entries) k =
     (case map_of (rev entries) k of Some v \<Rightarrow> Some (JStr v) | None \<Rightarrow> map_of acc k)"
proof (induction entries arbitrary: acc)
  case Nil
  then show ?case by simp
next
  case (Cons e es)
  obtain k0 v0 where e: "e = (k0, v0)" by (cases e)
  show ?case
    by (simp add: Cons e update_conv' map_add_def split: option.splits)
qed

lemma fromEntries_lookup:
  "map_of (fromEntries entries) k = map_option JStr (map_of (rev entries) k)"
  by (simp add: fromEntries_def fromEntries_lookup_gen split: option.splits)

text \<open>
  Claim C7. Let the props of the form be an object. If they hold a truthy \<^verbatim>\<open>onSubmit\<close>,
  a submission calls the callback once, with the tool of \<^verbatim>\<open>onSubmit\<close> and an object in
  which \<^verbatim>\<open>formData\<close> is the object of the live values and every other key reads as in
  the params of \<^verbatim>\<open>onSubmit\<close>. If \<^verbatim>\<open>onSubmit\<close> is missing, nothing is called. Either way
  the default is prevented. The live values are keyed by field name, the last entry of a
  name giving its value.
\<close>

theorem form_submission:
  "(getp component ''props'' = Some props \<and> getp props ''onSubmit'' = Some onSubmit \<longrightarrow>
     (truthy onSubmit \<longrightarrow>
        (\<exists>merged.
           handleSubmit True component entries =
             \<lparr>defaultPrevented = True,
              effects = Some [Called (optget onSubmit ''tool'') (JObj merged)]\<rparr> \<and>
           map_of merged ''formData'' = Some (JObj (fromEntries entries)) \<and>
           (\<forall>k. k \<noteq> ''formData'' \<longrightarrow>
              map_of merged k = map_of (spread (optget onSubmit ''params'')) k))) \<and>
     (\<not> truthy onSubmit \<longrightarrow>
        handleSubmit supplied component entries =
          \<lparr>defaultPrevented = True, effects = Some []\<rparr>)) \<and>
   defaultPrevented (handleSubmit supplied component entries) \<and>
   map_of (fromEntries entries) name = map_option JStr (map_of (rev entries) name)"
proof (intro conjI impI; (elim conjE)?)
  assume p: "getp component ''props'' = Some props"
    and o: "getp props ''onSubmit'' = Some onSubmit" and t: "truthy onSubmit"
  have g: "getp onSubmit k = Some (optget onSubmit k)" for k
    using t by (cases onSubmit) (simp_all add: optget_def)
  let ?merged = "AList.update ''formData'' (JObj (fromEntries entries))
                   (spread (optget onSubmit ''params''))"
  have "handleSubmit True component entries =
             \<lparr>defaultPrevented = True,
              effects = Some [Called (optget onSubmit ''tool'') (JObj ?merged)]\<rparr>"
    by (simp add: handleSubmit_def p o t g handleAction_def)
  moreover have "map_of ?merged ''formData'' = Some (JObj (fromEntries entries))"
    by (simp add: update_conv')
  moreover have "\<forall>k. k \<noteq> ''formData'' \<longrightarrow>
              map_of ?merged k = map_of (spread (optget onSubmit ''params'')) k"
    by (simp add: update_conv')
  ultimately show "\<exists>merged.
           handleSubmit True component entries =
             \<lparr>defaultPrevented = True,
              effects = Some [Called (optget onSubmit ''tool'') (JObj merged)]\<rparr> \<and>
           map_of merged ''formData'' = Some (JObj (fromEntries entries)) \<and>
           (\<forall>k. k \<noteq> ''formData'' \<longrightarrow>
              map_of merged k = map_of (spread (optget onSubmit ''params'')) k)"
    by blast
next
  assume "getp component ''props'' = Some props"
    and "getp props ''onSubmit'' = Some onSubmit" and "\<not> truthy onSubmit"
  then show "handleSubmit supplied component entries =
          \<lparr>defaultPrevented = True, effects = Some []\<rparr>"
    by (simp add: handleSubmit_def)
next
  show "defaultPrevented (handleSubmit supplied component entries)"
    by (simp add: handleSubmit_def)
next
  show "map_of (fromEntries entries) name = map_option JStr (map_of (rev entries) name)"
    by (rule fromEntries_lookup)
qed

theorem form_submission_witness:
  "getp (JObj [(''type'', JStr ''form''),
            (''props'', JObj [(''fields'', JArr []),
                              (''onSubmit'', JObj [(''event'', JStr ''submit''), (''tool'', JStr ''save''),
                                                   (''params'', JObj [(''a'', JNum 1), (''formData'', JStr ''ignored'')])])])]) ''props''
     = Some (JObj [(''fields'', JArr []),
            (''onSubmit'', JObj [(''event'', JStr ''submit''), (''tool'', JStr ''save''),
                                 (''params'', JObj [(''a'', JNum 1), (''formData'', JStr ''ignored'')])])]) \<and>
   getp (JObj [(''fields'', JArr []),
            (''onSubmit'', JObj [(''event'', JStr ''submit''), (''tool'', JStr ''save''),
                                 (''params'', JObj [(''a'', JNum 1), (''formData'', JStr ''ignored'')])])]) ''onSubmit''
     = Some (JObj [(''event'', JStr ''submit''), (''tool'', JStr ''save''),
            (''params'', JObj [(''a'', JNum 1), (''formData'', JStr ''ignored'')])]) \<and>
   truthy (JObj [(''event'', JStr ''submit''), (''tool'', JStr ''save''),
            (''params'', JObj [(''a'', JNum 1), (''formData'', JStr ''ignored'')])]) \<and>
   handleSubmit True
     (JObj [(''type'', JStr ''form''),
            (''props'', JObj [(''fields'', JArr []),
                              (''onSubmit'', JObj [(''event'', JStr ''submit''), (''tool'', JStr ''save''),
                                                   (''params'', JObj [(''a'', JNum 1), (''formData'', JStr ''ignored'')])])])])
     [(''x'', ''y'')]
   = \<lparr>defaultPrevented = True,
      effects = Some [Called (JStr ''save'')
                        (JObj [(''a'', JNum 1), (''formData'', JObj [(''x'', JStr ''y'')])])]\<rparr> \<and>
   getp (JObj [(''type'', JStr ''form''), (''props'', JObj [(''fields'', JArr [])])]) ''props''
     = Some (JObj [(''fields'', JArr [])]) \<and>
   getp (JObj [(''fields'', JArr [])]) ''onSubmit'' = Some JUndefined \<and>
   \<not> truthy JUndefined \<and>
   handleSubmit True (JObj [(''type'', JStr ''form''), (''props'', JObj [(''fields'', JArr [])])])
     [(''x'', ''y'')]
   = \<lparr>defaultPrevented = True, effects = Some []\<rparr>"
  using
    form_submission
      [where component = "JObj [(''type'', JStr ''form''),
            (''props'', JObj [(''fields'', JArr []),
                              (''onSubmit'', JObj [(''event'', JStr ''submit''), (''tool'', JStr ''save''),
                                                   (''params'', JObj [(''a'', JNum 1), (''formData'', JStr ''ignored'')])])])]"
         and props = "JObj [(''fields'', JArr []),
            (''onSubmit'', JObj [(''event'', JStr ''submit''), (''tool'', JStr ''save''),
                                 (''params'', JObj [(''a'', JNum 1), (''formData'', JStr ''ignored'')])])]"
         and onSubmit = "JObj [(''event'', JStr ''submit''), (''tool'', JStr ''save''),
            (''params'', JObj [(''a'', JNum 1), (''formData'', JStr ''ignored'')])]"
         and entries = "[(''x'', ''y'')]" and supplied = True and name = "''x''"]
    form_submission
      [where component = "JObj [(''type'', JStr ''form''), (''props'', JObj [(''fields'', JArr [])])]"
         and props = "JObj [(''fields'', JArr [])]"
         and onSubmit = JUndefined
         and entries = "[(''x'', ''y'')]" and supplied = True and name = "''x''"]
  by (simp add: handleSubmit_def handleAction_def fromEntries_def)











section \<open>Properties of the store\<close>

lemma fetchDocuments_failure:
  "failure_message outcome = Some msg \<Longrightarrow>
   fetchDocuments_settle outcome s = s\<lparr>error := Some msg, isLoading := False\<rparr>"
  by (cases "(outcome, s)" rule: fetchDocuments_settle.cases) auto

lemma fetchRegulations_failure:
  "failure_message outcome = Some msg \<Longrightarrow>
   fetchRegulations_settle outcome s = s\<lparr>error := Some msg, isLoading := False\<rparr>"
  by (cases "(outcome, s)" rule: fetchRegulations_settle.cases) auto

text \<open>
  Claim C1. The callback for the documents table, by kind of event. INSERT puts the new
  row in front of the list. UPDATE keeps the length and every position, replacing
  exactly the entries whose id is that of the new row, and changes nothing when no entry
  has that id. DELETE keeps, in order, the entries whose id differs from that of the old
  row. Any other kind leaves the state as it is. No other member of the state changes.
\<close>

theorem realtime_reconciliation:
  "(eventType p = ''INSERT'' \<longrightarrow>
      on_documents_change p s = s\<lparr>documents := new p # documents s\<rparr>) \<and>
   (eventType p = ''UPDATE'' \<longrightarrow>
      (on_documents_change p s)\<lparr>documents := documents s\<rparr> = s \<and>
      length (documents (on_documents_change p s)) = length (documents s) \<and>
      (\<forall>i < length (documents s).
         documents (on_documents_change p s) ! i =
           (if id_key (documents s ! i) = id_key (new p) then new p else documents s ! i)) \<and>
      ((\<forall>d \<in> set (documents s). id_key d \<noteq> id_key (new p)) \<longrightarrow>
         on_documents_change p s = s)) \<and>
   (eventType p = ''DELETE'' \<longrightarrow>
      on_documents_change p s =
        s\<lparr>documents := filter (\<lambda>d. id_key d \<noteq> id_key (old p)) (documents s)\<rparr>) \<and>
   (eventType p \<noteq> ''INSERT'' \<and> eventType p \<noteq> ''UPDATE'' \<and> eventType p \<noteq> ''DELETE'' \<longrightarrow>
      on_documents_change p s = s)"
proof (intro conjI impI)
  assume u: "eventType p = ''UPDATE''"
  assume "\<forall>d \<in> set (documents s). id_key d \<noteq> id_key (new p)"
  then have "map (\<lambda>doc. if id_key doc = id_key (new p) then new p else doc) (documents s)
      = documents s"
    by (simp add: map_idI)
  then show "on_documents_change p s = s"
    using u by (simp add: on_documents_change_def)
qed (simp_all add: on_documents_change_def)

theorem realtime_reconciliation_witness:
  "on_documents_change
     \<lparr>eventType = ''UPDATE'', new = \<lparr>id_key = ''2'', content = ''b'', source = ''kb'', chunk_idx = 0, embedding = JUndefined, created_at = ''2026'', metadata = JUndefined\<rparr>, old = \<lparr>id_key = ''2'', content = ''b'', source = ''kb'', chunk_idx = 0, embedding = JUndefined, created_at = ''2026'', metadata = JUndefined\<rparr>\<rparr>
     (initial_state\<lparr>documents := [\<lparr>id_key = ''1'', content = ''a'', source = ''kb'', chunk_idx = 0, embedding = JUndefined, created_at = ''2026'', metadata = JUndefined\<rparr>]\<rparr>)
   = initial_state\<lparr>documents := [\<lparr>id_key = ''1'', content = ''a'', source = ''kb'', chunk_idx = 0, embedding = JUndefined, created_at = ''2026'', metadata = JUndefined\<rparr>]\<rparr> \<and>
   on_documents_change
     \<lparr>eventType = ''INSERT'', new = \<lparr>id_key = ''3'', content = ''c'', source = ''kb'', chunk_idx = 0, embedding = JUndefined, created_at = ''2026'', metadata = JUndefined\<rparr>, old = \<lparr>id_key = ''3'', content = ''c'', source = ''kb'', chunk_idx = 0, embedding = JUndefined, created_at = ''2026'', metadata = JUndefined\<rparr>\<rparr>
     (initial_state\<lparr>documents := [\<lparr>id_key = ''1'', content = ''a'', source = ''kb'', chunk_idx = 0, embedding = JUndefined, created_at = ''2026'', metadata = JUndefined\<rparr>]\<rparr>)
   = initial_state\<lparr>documents := [\<lparr>id_key = ''3'', content = ''c'', source = ''kb'', chunk_idx = 0, embedding = JUndefined, created_at = ''2026'', metadata = JUndefined\<rparr>, \<lparr>id_key = ''1'', content = ''a'', source = ''kb'', chunk_idx = 0, embedding = JUndefined, created_at = ''2026'', metadata = JUndefined\<rparr>]\<rparr> \<and>
   on_documents_change
     \<lparr>eventType = ''DELETE'', new = \<lparr>id_key = ''1'', content = ''a'', source = ''kb'', chunk_idx = 0, embedding = JUndefined, created_at = ''2026'', metadata = JUndefined\<rparr>, old = \<lparr>id_key = ''1'', content = ''a'', source = ''kb'', chunk_idx = 0, embedding = JUndefined, created_at = ''2026'', metadata = JUndefined\<rparr>\<rparr>
     (initial_state\<lparr>documents := [\<lparr>id_key = ''3'', content = ''c'', source = ''kb'', chunk_idx = 0, embedding = JUndefined, created_at = ''2026'', metadata = JUndefined\<rparr>, \<lparr>id_key = ''1'', content = ''a'', source = ''kb'', chunk_idx = 0, embedding = JUndefined, created_at = ''2026'', metadata = JUndefined\<rparr>]\<rparr>)
   = initial_state\<lparr>documents := [\<lparr>id_key = ''3'', content = ''c'', source = ''kb'', chunk_idx = 0, embedding = JUndefined, created_at = ''2026'', metadata = JUndefined\<rparr>]\<rparr> \<and>
   on_documents_change
     \<lparr>eventType = ''UPDATE'', new = \<lparr>id_key = ''1'', content = ''z'', source = ''kb'', chunk_idx = 0, embedding = JUndefined, created_at = ''2026'', metadata = JUndefined\<rparr>, old = \<lparr>id_key = ''1'', content = ''z'', source = ''kb'', chunk_idx = 0, embedding = JUndefined, created_at = ''2026'', metadata = JUndefined\<rparr>\<rparr>
     (initial_state\<lparr>documents := [\<lparr>id_key = ''3'', content = ''c'', source = ''kb'', chunk_idx = 0, embedding = JUndefined, created_at = ''2026'', metadata = JUndefined\<rparr>, \<lparr>id_key = ''1'', content = ''a'', source = ''kb'', chunk_idx = 0, embedding = JUndefined, created_at = ''2026'', metadata = JUndefined\<rparr>]\<rparr>)
   = initial_state\<lparr>documents := [\<lparr>id_key = ''3'', content = ''c'', source = ''kb'', chunk_idx = 0, embedding = JUndefined, created_at = ''2026'', metadata = JUndefined\<rparr>, \<lparr>id_key = ''1'', content = ''z'', source = ''kb'', chunk_idx = 0, embedding = JUndefined, created_at = ''2026'', metadata = JUndefined\<rparr>]\<rparr> \<and>
   on_documents_change
     \<lparr>eventType = ''TRUNCATE'', new = \<lparr>id_key = ''2'', content = ''b'', source = ''kb'', chunk_idx = 0, embedding = JUndefined, created_at = ''2026'', metadata = JUndefined\<rparr>, old = \<lparr>id_key = ''2'', content = ''b'', source = ''kb'', chunk_idx = 0, embedding = JUndefined, created_at = ''2026'', metadata = JUndefined\<rparr>\<rparr>
     (initial_state\<lparr>documents := [\<lparr>id_key = ''3'', content = ''c'', source = ''kb'', chunk_idx = 0, embedding = JUndefined, created_at = ''2026'', metadata = JUndefined\<rparr>, \<lparr>id_key = ''1'', content = ''a'', source = ''kb'', chunk_idx = 0, embedding = JUndefined, created_at = ''2026'', metadata = JUndefined\<rparr>]\<rparr>)
   = initial_state\<lparr>documents := [\<lparr>id_key = ''3'', content = ''c'', source = ''kb'', chunk_idx = 0, embedding = JUndefined, created_at = ''2026'', metadata = JUndefined\<rparr>, \<lparr>id_key = ''1'', content = ''a'', source = ''kb'', chunk_idx = 0, embedding = JUndefined, created_at = ''2026'', metadata = JUndefined\<rparr>]\<rparr>"
  using
    realtime_reconciliation
      [of "\<lparr>eventType = ''UPDATE'', new = \<lparr>id_key = ''2'', content = ''b'', source = ''kb'', chunk_idx = 0, embedding = JUndefined, created_at = ''2026'', metadata = JUndefined\<rparr>, old = \<lparr>id_key = ''2'', content = ''b'', source = ''kb'', chunk_idx = 0, embedding = JUndefined, created_at = ''2026'', metadata = JUndefined\<rparr>\<rparr>"
          "initial_state\<lparr>documents := [\<lparr>id_key = ''1'', content = ''a'', source = ''kb'', chunk_idx = 0, embedding = JUndefined, created_at = ''2026'', metadata = JUndefined\<rparr>]\<rparr>"]
    realtime_reconciliation
      [of "\<lparr>eventType = ''INSERT'', new = \<lparr>id_key = ''3'', content = ''c'', source = ''kb'', chunk_idx = 0, embedding = JUndefined, created_at = ''2026'', metadata = JUndefined\<rparr>, old = \<lparr>id_key = ''3'', content = ''c'', source = ''kb'', chunk_idx = 0, embedding = JUndefined, created_at = ''2026'', metadata = JUndefined\<rparr>\<rparr>"
          "initial_state\<lparr>documents := [\<lparr>id_key = ''1'', content = ''a'', source = ''kb'', chunk_idx = 0, embedding = JUndefined, created_at = ''2026'', metadata = JUndefined\<rparr>]\<rparr>"]
    realtime_reconciliation
      [of "\<lparr>eventType = ''DELETE'', new = \<lparr>id_key = ''1'', content = ''a'', source = ''kb'', chunk_idx = 0, embedding = JUndefined, created_at = ''2026'', metadata = JUndefined\<rparr>, old = \<lparr>id_key = ''1'', content = ''a'', source = ''kb'', chunk_idx = 0, embedding = JUndefined, created_at = ''2026'', metadata = JUndefined\<rparr>\<rparr>"
          "initial_state\<lparr>documents := [\<lparr>id_key = ''3'', content = ''c'', source = ''kb'', chunk_idx = 0, embedding = JUndefined, created_at = ''2026'', metadata = JUndefined\<rparr>, \<lparr>id_key = ''1'', content = ''a'', source = ''kb'', chunk_idx = 0, embedding = JUndefined, created_at = ''2026'', metadata = JUndefined\<rparr>]\<rparr>"]
    realtime_reconciliation
      [of "\<lparr>eventType = ''UPDATE'', new = \<lparr>id_key = ''1'', content = ''z'', source = ''kb'', chunk_idx = 0, embedding = JUndefined, created_at = ''2026'', metadata = JUndefined\<rparr>, old = \<lparr>id_key = ''1'', content = ''z'', source = ''kb'', chunk_idx = 0, embedding = JUndefined, created_at = ''2026'', metadata = JUndefined\<rparr>\<rparr>"
          "initial_state\<lparr>documents := [\<lparr>id_key = ''3'', content = ''c'', source = ''kb'', chunk_idx = 0, embedding = JUndefined, created_at = ''2026'', metadata = JUndefined\<rparr>, \<lparr>id_key = ''1'', content = ''a'', source = ''kb'', chunk_idx = 0, embedding = JUndefined, created_at = ''2026'', metadata = JUndefined\<rparr>]\<rparr>"]
    realtime_reconciliation
      [of "\<lparr>eventType = ''TRUNCATE'', new = \<lparr>id_key = ''2'', content = ''b'', source = ''kb'', chunk_idx = 0, embedding = JUndefined, created_at = ''2026'', metadata = JUndefined\<rparr>, old = \<lparr>id_key = ''2'', content = ''b'', source = ''kb'', chunk_idx = 0, embedding = JUndefined, created_at = ''2026'', metadata = JUndefined\<rparr>\<rparr>"
          "initial_state\<lparr>documents := [\<lparr>id_key = ''3'', content = ''c'', source = ''kb'', chunk_idx = 0, embedding = JUndefined, created_at = ''2026'', metadata = JUndefined\<rparr>, \<lparr>id_key = ''1'', content = ''a'', source = ''kb'', chunk_idx = 0, embedding = JUndefined, created_at = ''2026'', metadata = JUndefined\<rparr>]\<rparr>"]
  by (simp add: initial_state_def on_documents_change_def)

text \<open>
  Claim C2. In a world whose store is subscribed, \<^verbatim>\<open>subscribe\<close> returns the closure that
  does nothing and leaves the world as it is: the channels of the client, the two
  references and \<^verbatim>\<open>isSubscribed\<close>. Hence after any call of \<^verbatim>\<open>subscribe\<close> the store is
  subscribed, and a second call changes nothing.
\<close>

theorem subscribe_guard:
  "(isSubscribed (store w) \<longrightarrow> subscribe w = (Noop, w)) \<and>
   run_cleanup Noop w' = w' \<and>
   isSubscribed (store (snd (subscribe w))) \<and>
   subscribe (snd (subscribe w)) = (Noop, snd (subscribe w))"
  by (simp add: subscribe_def open_channel_def Let_def)

theorem subscribe_guard_witness:
  "subscribe \<lparr>store = initial_state, documentChannel = None, regulationChannel = None, channels = []\<rparr>
   = (Release,
      \<lparr>store = initial_state\<lparr>isSubscribed := True\<rparr>, documentChannel = Some 0, regulationChannel = Some 1,
       channels = [\<lparr>topic = ''documents-changes'', table = ''documents'', joined = True\<rparr>,
                   \<lparr>topic = ''regulations-changes'', table = ''regulations'', joined = True\<rparr>]\<rparr>) \<and>
   isSubscribed (store
      \<lparr>store = initial_state\<lparr>isSubscribed := True\<rparr>, documentChannel = Some 0, regulationChannel = Some 1,
       channels = [\<lparr>topic = ''documents-changes'', table = ''documents'', joined = True\<rparr>,
                   \<lparr>topic = ''regulations-changes'', table = ''regulations'', joined = True\<rparr>]\<rparr>) \<and>
   subscribe
      \<lparr>store = initial_state\<lparr>isSubscribed := True\<rparr>, documentChannel = Some 0, regulationChannel = Some 1,
       channels = [\<lparr>topic = ''documents-changes'', table = ''documents'', joined = True\<rparr>,
                   \<lparr>topic = ''regulations-changes'', table = ''regulations'', joined = True\<rparr>]\<rparr>
   = (Noop,
      \<lparr>store = initial_state\<lparr>isSubscribed := True\<rparr>, documentChannel = Some 0, regulationChannel = Some 1,
       channels = [\<lparr>topic = ''documents-changes'', table = ''documents'', joined = True\<rparr>,
                   \<lparr>topic = ''regulations-changes'', table = ''regulations'', joined = True\<rparr>]\<rparr>)"
  using subscribe_guard
    [of "\<lparr>store = initial_state\<lparr>isSubscribed := True\<rparr>, documentChannel = Some 0, regulationChannel = Some 1,
       channels = [\<lparr>topic = ''documents-changes'', table = ''documents'', joined = True\<rparr>,
                   \<lparr>topic = ''regulations-changes'', table = ''regulations'', joined = True\<rparr>]\<rparr>"]
  by (simp add: subscribe_def open_channel_def initial_state_def)

text \<open>
  Claim C3. When the query of \<^verbatim>\<open>fetchDocuments\<close> fails with a message, be it an error in
  the reply or a rejection, the action leaves the state as it was except for \<^verbatim>\<open>error\<close>,
  which holds the message, and \<^verbatim>\<open>isLoading\<close>, which is false; in particular the list of
  documents is the one from before, which the settling write alone does not touch either.
  The same holds of \<^verbatim>\<open>fetchRegulations\<close> and the list of regulations.
\<close>

theorem fetch_failure_keeps_list:
  "(failure_message outcome = Some msg \<longrightarrow>
      fetchDocuments outcome s = s\<lparr>error := Some msg, isLoading := False\<rparr> \<and>
      documents (fetchDocuments outcome s) = documents s \<and>
      documents (fetchDocuments_settle outcome s) = documents s) \<and>
   (failure_message outcome' = Some msg' \<longrightarrow>
      fetchRegulations outcome' s = s\<lparr>error := Some msg', isLoading := False\<rparr> \<and>
      regulations (fetchRegulations outcome' s) = regulations s \<and>
      regulations (fetchRegulations_settle outcome' s) = regulations s)"
  by (simp add: fetchDocuments_failure fetchRegulations_failure fetchDocuments_def
        fetchRegulations_def fetch_begin_def)

theorem fetch_failure_keeps_list_witness:
  "failure_message (Fulfilled (Reply None (Some ''permission denied'')) :: document reply settled)
     = Some ''permission denied'' \<and>
   fetchDocuments (Fulfilled (Reply None (Some ''permission denied'')))
     (initial_state\<lparr>documents := [\<lparr>id_key = ''1'', content = ''a'', source = ''kb'', chunk_idx = 0, embedding = JUndefined, created_at = ''2026'', metadata = JUndefined\<rparr>]\<rparr>)
   = initial_state\<lparr>documents := [\<lparr>id_key = ''1'', content = ''a'', source = ''kb'', chunk_idx = 0, embedding = JUndefined, created_at = ''2026'', metadata = JUndefined\<rparr>]\<rparr>
       \<lparr>error := Some ''permission denied''\<rparr> \<and>
   failure_message (RejectedWith ''Failed to fetch'' :: regulation reply settled)
     = Some ''Failed to fetch'' \<and>
   fetchRegulations (RejectedWith ''Failed to fetch'')
     (initial_state\<lparr>regulations := [\<lparr>id_key = ''7'', content = ''r'', source = ''kb'', chunk_idx = 0, embedding = JUndefined, created_at = ''2026'', article_no = None\<rparr>]\<rparr>)
   = initial_state\<lparr>regulations := [\<lparr>id_key = ''7'', content = ''r'', source = ''kb'', chunk_idx = 0, embedding = JUndefined, created_at = ''2026'', article_no = None\<rparr>],
       error := Some ''Failed to fetch''\<rparr>"
  using fetch_failure_keeps_list
    [of "Fulfilled (Reply None (Some ''permission denied''))" "''permission denied''"
        "initial_state\<lparr>documents := [\<lparr>id_key = ''1'', content = ''a'', source = ''kb'', chunk_idx = 0, embedding = JUndefined, created_at = ''2026'', metadata = JUndefined\<rparr>]\<rparr>"
        "RejectedWith ''Failed to fetch''" "''Failed to fetch''"]
    fetch_failure_keeps_list
    [of "RejectedWith ''Failed to fetch''" "''Failed to fetch''"
        "initial_state\<lparr>regulations := [\<lparr>id_key = ''7'', content = ''r'', source = ''kb'', chunk_idx = 0, embedding = JUndefined, created_at = ''2026'', article_no = None\<rparr>]\<rparr>"
        "RejectedWith ''Failed to fetch''" "''Failed to fetch''"]
  by (simp add: initial_state_def)

text \<open>
  What \<^verbatim>\<open>searchDocuments\<close> does with a response, used for claim C4: the first write sets
  the three members; a failed search sets \<^verbatim>\<open>error\<close> and keeps \<^verbatim>\<open>searchResults\<close>; a
  successful one stores the member \<^verbatim>\<open>results\<close> of the body.
\<close>

lemma searchDocuments_begin_sets:
  "isLoading (searchDocuments_begin query s) \<and> error (searchDocuments_begin query s) = None \<and>
   lastQuery (searchDocuments_begin query s) = Some query"
  by (simp add: searchDocuments_begin_def)

lemma searchDocuments_failure:
  "\<not> search_succeeds outcome \<Longrightarrow>
   (\<exists>message. error (searchDocuments tmsg query outcome s) = Some message) \<and>
   \<not> isLoading (searchDocuments tmsg query outcome s) \<and>
   searchResults (searchDocuments tmsg query outcome s) = searchResults s"
  by (cases "(tmsg, outcome, s)" rule: searchDocuments_settle.cases)
     (auto simp: searchDocuments_def searchDocuments_begin_def search_fail_def
        split: settled.splits)

lemma searchDocuments_success:
  "search_succeeds (Fulfilled response) \<Longrightarrow> json response = Fulfilled body \<Longrightarrow>
   searchDocuments tmsg query (Fulfilled response) s =
     s\<lparr>isLoading := False, error := None, lastQuery := Some query,
        searchResults := optget body ''results''\<rparr>"
  by (cases body) (auto simp: searchDocuments_def searchDocuments_begin_def optget_def)

text \<open>
  Every reply of the route with status 200 is an object without a member \<^verbatim>\<open>results\<close>
  (the rows are under \<^verbatim>\<open>data\<close>), so the store ends with \<^verbatim>\<open>searchResults\<close> undefined.
\<close>

lemma search_via_route_undefined:
  "status (POST tmsg request emb rpc) = 200 \<Longrightarrow>
   searchDocuments tmsg' query (Fulfilled (POST tmsg request emb rpc)) s
     = s\<lparr>isLoading := False, error := None, lastQuery := Some query,
          searchResults := JUndefined\<rparr>"
  by (cases "(tmsg, request, emb, rpc)" rule: POST.cases)
     (auto simp: searchDocuments_def searchDocuments_begin_def json_response_def ok_def
        error_response_def split: option.splits settled.splits if_splits)

text \<open>
  Claim C4, at one successful search: the store posts the query \<^verbatim>\<open>fire\<close> with limit 5,
  the embedding has 1024 entries and the ranking function returns one row. The route
  answers with status 200 and the row under \<^verbatim>\<open>data\<close>; the store, reading \<^verbatim>\<open>results\<close>,
  ends with \<^verbatim>\<open>searchResults\<close> undefined instead of the list with that row.
\<close>

theorem search_results_lost:
  "POST ''boom'' (Fulfilled (search_request ''fire'' 5)) (Fulfilled 1024)
        (Fulfilled \<lparr>rpc_data = JArr [JObj [(''id'', JStr ''r1'')]], rpc_error = None\<rparr>)
    = \<lparr>status = 200,
       json = Fulfilled (JObj [(''success'', JBool True),
                               (''data'', JArr [JObj [(''id'', JStr ''r1'')]]),
                               (''query'', JStr ''fire''),
                               (''embedding_dimension'', JNum 1024)])\<rparr> \<and>
   searchDocuments ''boom'' ''fire''
     (Fulfilled (POST ''boom'' (Fulfilled (search_request ''fire'' 5)) (Fulfilled 1024)
        (Fulfilled \<lparr>rpc_data = JArr [JObj [(''id'', JStr ''r1'')]], rpc_error = None\<rparr>)))
     initial_state
   = initial_state\<lparr>lastQuery := Some ''fire'', searchResults := JUndefined\<rparr>"
  by (simp add: searchDocuments_def searchDocuments_begin_def search_request_def
      json_response_def ok_def initial_state_def js_or_def)

text \<open>
  Claim C5. \<^verbatim>\<open>reset\<close> yields the initial state except for \<^verbatim>\<open>isSubscribed\<close>, which it
  keeps: the three lists are empty, \<^verbatim>\<open>error\<close> and \<^verbatim>\<open>lastQuery\<close> are null and \<^verbatim>\<open>isLoading\<close>
  is false, whatever they held before. Run in the world, it changes neither the two
  channel references nor the channels of the client.
\<close>

theorem reset_restores_initial:
  "reset s = initial_state\<lparr>isSubscribed := isSubscribed s\<rparr> \<and>
   documents (reset s) = [] \<and> regulations (reset s) = [] \<and>
   searchResults (reset s) = JArr [] \<and> isLoading (reset s) = False \<and>
   error (reset s) = None \<and> lastQuery (reset s) = None \<and>
   isSubscribed (reset s) = isSubscribed s \<and>
   isSubscribed (store (in_world reset w)) = isSubscribed (store w) \<and>
   documentChannel (in_world reset w) = documentChannel w \<and>
   regulationChannel (in_world reset w) = regulationChannel w \<and>
   channels (in_world reset w) = channels w"
  by (simp add: reset_def initial_state_def in_world_def)

end
